theory Spec2Isabelle
  imports Main "HOL-Library.Word" "HOL-Library.Finite_Map"
begin

section \<open>JavaScript strings\<close>

text \<open>
  A JavaScript string is a sequence of UTF-16 code units. The regular expressions of
  \<^verbatim>\<open>index.ts\<close> carry no \<^verbatim>\<open>u\<close> flag, so they too work on single code units.
  \<open>js\<close> injects an ASCII literal.
\<close>

type_synonym jschar = "16 word"
type_synonym jsstring = "jschar list"

definition js :: "string \<Rightarrow> jsstring" where
  "js s = map of_char s"

abbreviation LS :: jschar where "LS \<equiv> 0x2028"
abbreviation PS :: jschar where "PS \<equiv> 0x2029"
abbreviation backslash :: jschar where "backslash \<equiv> 0x5C"
abbreviation apostrophe :: jschar where "apostrophe \<equiv> 0x27"
abbreviation LF :: jschar where "LF \<equiv> 0x0A"
abbreviation CR :: jschar where "CR \<equiv> 0x0D"

text \<open>
  \<^verbatim>\<open>s.replace(/c/g, r)\<close> for a pattern that is one code unit \<open>c\<close> and a replacement \<open>r\<close>
  without \<^verbatim>\<open>$\<close>: every occurrence of \<open>c\<close>, left to right, becomes \<open>r\<close>.
\<close>

definition replace_all :: "jschar \<Rightarrow> jsstring \<Rightarrow> jsstring \<Rightarrow> jsstring" where
  "replace_all c r s = concat (map (\<lambda>x. if x = c then r else [x]) s)"

section \<open>String Sanitizer\<close>

text \<open>
  \<^verbatim>\<open>cleanMessagesString\<close> (index.ts, lines 87 to 93): four chained replacements, the
  innermost call here being the first of the chain. The replacement \<^verbatim>\<open>'\\u2028'\<close> of the
  source is the six code units backslash, u, 2, 0, 2, 8; \<^verbatim>\<open>'\\\\'\<close> is two backslashes.
\<close>

definition cleanMessagesString :: "jsstring \<Rightarrow> jsstring" where
  "cleanMessagesString messagesString =
     replace_all apostrophe (backslash # js ''u0027'')
       (replace_all backslash [backslash, backslash]
         (replace_all PS (backslash # js ''u2029'')
           (replace_all LS (backslash # js ''u2028'') messagesString)))"

text \<open>The template literal of \<^verbatim>\<open>stringifyMessages\<close> (line 84) puts the result between apostrophes.\<close>

definition single_quoted :: "jsstring \<Rightarrow> jsstring" where
  "single_quoted body = apostrophe # body @ [apostrophe]"

subsection \<open>What the sanitizer's steps are compared with\<close>

text \<open>
  The escaping the specification describes, read as one pass: each code unit of the input
  is escaped once, and nothing an escape introduces is escaped again.
\<close>

definition escape_once_unit :: "jschar \<Rightarrow> jsstring" where
  "escape_once_unit c =
     (if c = LS then backslash # js ''u2028''
      else if c = PS then backslash # js ''u2029''
      else if c = backslash then [backslash, backslash]
      else if c = apostrophe then backslash # js ''u0027''
      else [c])"

definition escape_once :: "jsstring \<Rightarrow> jsstring" where
  "escape_once s = concat (map escape_once_unit s)"

text \<open>What the chain of the source does to one code unit.\<close>

definition clean_unit :: "jschar \<Rightarrow> jsstring" where
  "clean_unit c =
     (if c = LS then backslash # backslash # js ''u2028''
      else if c = PS then backslash # backslash # js ''u2029''
      else if c = backslash then [backslash, backslash]
      else if c = apostrophe then backslash # js ''u0027''
      else [c])"

text \<open>
  The text in which every separator is replaced by its six-unit JSON escape, and nothing
  else changes: to a JSON parser it denotes the same value as the original.
\<close>

definition escape_separators :: "jsstring \<Rightarrow> jsstring" where
  "escape_separators s =
     replace_all PS (backslash # js ''u2029'') (replace_all LS (backslash # js ''u2028'') s)"

subsection \<open>Reading a single-quoted literal back\<close>

text \<open>
  The value of a single-quoted string literal of the emitted module, by the lexical grammar
  of ECMAScript (StringLiteral, up to ES2018): a raw apostrophe, backslash or line
  terminator (LF, CR, U+2028, U+2029) cannot stand in the body; a backslash starts an
  escape sequence. The single-character escapes, \<^verbatim>\<open>\xHH\<close> and \<^verbatim>\<open>\uHHHH\<close> are read;
  the remaining forms (\<^verbatim>\<open>\u{...}\<close>, \<^verbatim>\<open>\0\<close>, octal escapes, line continuations, identity
  escapes), which the sanitizer never emits, are rejected, so \<open>Some v\<close> is always the value
  JavaScript computes.
\<close>

definition hex_digit :: "jschar \<Rightarrow> jschar option" where
  "hex_digit c =
     (if 0x30 \<le> c \<and> c \<le> 0x39 then Some (c - 0x30)
      else if 0x41 \<le> c \<and> c \<le> 0x46 then Some (c - 0x41 + 10)
      else if 0x61 \<le> c \<and> c \<le> 0x66 then Some (c - 0x61 + 10)
      else None)"

definition hex2 :: "jschar \<Rightarrow> jschar \<Rightarrow> jschar option" where
  "hex2 a b =
     (case (hex_digit a, hex_digit b) of
        (Some h1, Some h0) \<Rightarrow> Some (h1 * 0x10 + h0)
      | _ \<Rightarrow> None)"

definition hex4 :: "jschar \<Rightarrow> jschar \<Rightarrow> jschar \<Rightarrow> jschar \<Rightarrow> jschar option" where
  "hex4 a b c d =
     (case (hex2 a b, hex2 c d) of
        (Some hi, Some lo) \<Rightarrow> Some (hi * 0x100 + lo)
      | _ \<Rightarrow> None)"

definition single_escape :: "jschar \<Rightarrow> jschar option" where
  "single_escape e =
     (if e = apostrophe \<or> e = 0x22 \<or> e = backslash then Some e
      else if e = 0x62 then Some 0x08
      else if e = 0x66 then Some 0x0C
      else if e = 0x6E then Some LF
      else if e = 0x72 then Some CR
      else if e = 0x74 then Some 0x09
      else if e = 0x76 then Some 0x0B
      else None)"

fun js_unescape :: "jsstring \<Rightarrow> jsstring option" where
  "js_unescape [] = Some []"
| "js_unescape (c # cs) =
     (if c = backslash then
        (case cs of
           [] \<Rightarrow> None
         | e # r \<Rightarrow>
             if e = 0x75 then
               (case r of
                  h3 # h2 # h1 # h0 # r' \<Rightarrow>
                    (case hex4 h3 h2 h1 h0 of
                       Some u \<Rightarrow> map_option ((#) u) (js_unescape r')
                     | None \<Rightarrow> None)
                | _ \<Rightarrow> None)
             else if e = 0x78 then
               (case r of
                  h1 # h0 # r' \<Rightarrow>
                    (case hex2 h1 h0 of
                       Some u \<Rightarrow> map_option ((#) u) (js_unescape r')
                     | None \<Rightarrow> None)
                | _ \<Rightarrow> None)
             else
               (case single_escape e of
                  Some u \<Rightarrow> map_option ((#) u) (js_unescape r)
                | None \<Rightarrow> None))
      else if c = apostrophe \<or> c = LF \<or> c = CR \<or> c = LS \<or> c = PS then None
      else map_option ((#) c) (js_unescape cs))"

definition string_literal_value :: "jsstring \<Rightarrow> jsstring option" where
  "string_literal_value lit =
     (case lit of
        [] \<Rightarrow> None
      | q # rest \<Rightarrow>
          if q = apostrophe \<and> rest \<noteq> [] \<and> last rest = apostrophe
          then js_unescape (butlast rest) else None)"

section \<open>JavaScript values\<close>

text \<open>
  The values the parsers hand to \<^verbatim>\<open>index.ts\<close>: JSON data and \<^verbatim>\<open>undefined\<close> (what
  \<^verbatim>\<open>yaml.safeLoad\<close> returns for an empty document). A number is kept as the 64 bits of its
  IEEE-754 double: the code never computes with one, it only tests it for truthiness, which
  the bit pattern decides. An object is the finite map of its own enumerable data
  properties; that abstracts from the order of the properties. The prototype of such an
  object is \<^verbatim>\<open>Object.prototype\<close>, whose members are functions and one accessor,
  \<^verbatim>\<open>__proto__\<close>. The program changes a prototype in one place, the \<^verbatim>\<open>Object.assign\<close> of
  line 55; \<open>Inherits p\<close> is what that yields: an object without own properties whose
  prototype is \<open>p\<close>, an object, an array or null.
\<close>

unbundle bit_operations_syntax

datatype jsval =
    Undefined | Null | Bool bool | Num "64 word" | Str jsstring
  | Arr "jsval list" | Obj "(jsstring, jsval) fmap" | Inherits jsval

text \<open>ToBoolean: false for undefined, null, false, zero of either sign, NaN and the empty string.\<close>

definition truthy :: "jsval \<Rightarrow> bool" where
  "truthy v =
     (case v of
        Undefined \<Rightarrow> False
      | Null \<Rightarrow> False
      | Bool b \<Rightarrow> b
      | Num d \<Rightarrow> \<not> (d AND 0x7FFFFFFFFFFFFFFF = 0 \<or> 0x7FF0000000000000 < d AND 0x7FFFFFFFFFFFFFFF)
      | Str s \<Rightarrow> s \<noteq> []
      | Arr xs \<Rightarrow> True
      | Obj m \<Rightarrow> True
      | Inherits p \<Rightarrow> True)"

text \<open>The property name of an array index or of a position in a string: its decimal numeral.\<close>

fun index_key :: "nat \<Rightarrow> jsstring" where
  "index_key n =
     (if n < 10 then [0x30 + of_nat n]
      else index_key (n div 10) @ [0x30 + of_nat (n mod 10)])"

declare index_key.simps [simp del]

text \<open>
  The own enumerable properties of a value, which is what an object spread \<^verbatim>\<open>{...v}\<close>
  copies: the properties of an object, the elements of an array and the code units of a
  string under their indices, nothing for undefined, null, a boolean or a number, and
  nothing for an object that only inherits.
\<close>

definition own_props :: "jsval \<Rightarrow> (jsstring, jsval) fmap" where
  "own_props v =
     (case v of
        Obj m \<Rightarrow> m
      | Arr xs \<Rightarrow> fmap_of_list (zip (map index_key [0..<length xs]) xs)
      | Str s \<Rightarrow> fmap_of_list (zip (map index_key [0..<length s]) (map (\<lambda>c. Str [c]) s))
      | _ \<Rightarrow> fmempty)"

text \<open>
  An exception: the name of its constructor and its \<^verbatim>\<open>message\<close>. \<open>Error m\<close> is what
  \<^verbatim>\<open>new Error(m)\<close> builds.
\<close>

datatype error = Exception jsstring jsstring

abbreviation Error :: "jsstring \<Rightarrow> error" where
  "Error m \<equiv> Exception (js ''Error'') m"

fun message :: "error \<Rightarrow> jsstring" where
  "message (Exception n m) = m"

section \<open>Inputs of the loader\<close>

text \<open>A value of \<^verbatim>\<open>ParsedUrlQuery\<close> is a string, or a list of strings for a repeated key.\<close>

datatype qval = QStr jsstring | QArr "jsstring list"

type_synonym ParsedUrlQuery = "jsstring \<Rightarrow> qval option"

text \<open>Truthiness of \<^verbatim>\<open>attrs.key\<close>: an absent key reads as undefined, an array is truthy.\<close>

definition truthy_attr :: "qval option \<Rightarrow> bool" where
  "truthy_attr a =
     (case a of None \<Rightarrow> False | Some (QStr s) \<Rightarrow> s \<noteq> [] | Some (QArr xs) \<Rightarrow> True)"

record VueI18nLoaderOptions =
  locales :: "jsstring list option"
  fallbackLocale :: "jsstring option"

text \<open>The \<^verbatim>\<open>source\<close> argument: \<^verbatim>\<open>string | Buffer\<close>.\<close>

datatype source = Text jsstring | Buffer "8 word list"

typedecl RawSourceMap

text \<open>The third argument of \<^verbatim>\<open>JSON.stringify\<close>: absent, a string or a number of spaces.\<close>

datatype indent = NoIndent | IndentStr jsstring | IndentNum nat

section \<open>Effects and the libraries\<close>

text \<open>
  What an invocation does to the world outside it, in order: the calls on the loader
  context and the calls that reach the file system.
\<close>

datatype event =
    Cacheable
  | EmitError jsstring
  | Callback "error + jsstring \<times> RawSourceMap option"
  | DirSync jsstring
  | WriteFileSync jsstring jsstring

text \<open>
  The imported libraries, the engine and the operating system are parameters of the model,
  as the specification has them (black boxes): the three parsers, the text
  \<^verbatim>\<open>JSON.stringify\<close> produces for a value that is not undefined, \<^verbatim>\<open>Buffer.toString\<close>,
  \<^verbatim>\<open>querystring.parse\<close>, the wording of the engine's TypeError for reading a property (the
  name of the property, the value read from), and the outcome of the two file-system calls
  given what has happened so far: the name of the directory \<^verbatim>\<open>tmp.dirSync\<close> creates or its
  exception, and the exception of \<^verbatim>\<open>fs.writeFileSync\<close>, if any.
\<close>

record host =
  yaml_safeLoad :: "jsstring \<Rightarrow> error + jsval"
  JSON5_parse :: "jsstring \<Rightarrow> error + jsval"
  JSON_parse :: "jsstring \<Rightarrow> error + jsval"
  json_text :: "jsval \<Rightarrow> indent \<Rightarrow> jsstring"
  Buffer_toString :: "8 word list \<Rightarrow> jsstring"
  querystring_parse :: "jsstring \<Rightarrow> ParsedUrlQuery"
  cannot_read :: "jsstring \<Rightarrow> jsval \<Rightarrow> jsstring"
  tmp_dirSync :: "event list \<Rightarrow> error + jsstring"
  fs_writeFileSync :: "event list \<Rightarrow> jsstring \<Rightarrow> jsstring \<Rightarrow> error option"

text \<open>\<^verbatim>\<open>JSON.stringify(v, _, indent)\<close>: undefined (\<open>None\<close>) for undefined, a string otherwise.\<close>

definition JSON_stringify :: "host \<Rightarrow> jsval \<Rightarrow> indent \<Rightarrow> jsstring option" where
  "JSON_stringify h v ind = (case v of Undefined \<Rightarrow> None | _ \<Rightarrow> Some (json_text h v ind))"

text \<open>
  The first own property of the name \<open>k\<close> along the prototype chain that starts at a value,
  and whether that chain ends in \<^verbatim>\<open>Object.prototype\<close> (it does unless it passes through a
  null prototype).
\<close>

fun inherited :: "jsval \<Rightarrow> jsstring \<Rightarrow> jsval option" where
  "inherited (Inherits p) k = inherited p k"
| "inherited v k = fmlookup (own_props v) k"

fun rooted :: "jsval \<Rightarrow> bool" where
  "rooted (Inherits p) = rooted p"
| "rooted Null = False"
| "rooted v = True"

text \<open>
  \<^verbatim>\<open>v[k]\<close>: a TypeError on undefined and null; otherwise the first own property along the
  chain. When there is none, an object that inherits reads \<^verbatim>\<open>__proto__\<close> as its prototype,
  through the accessor of \<^verbatim>\<open>Object.prototype\<close> if the chain gets there; everything else
  is undefined. (The members this leaves out, \<^verbatim>\<open>length\<close> and what the built-in prototypes
  lend, are numbers, functions and the built-in prototype objects: values without own
  enumerable properties, which the spread below treats as it treats undefined.)
\<close>

definition get_prop :: "host \<Rightarrow> jsval \<Rightarrow> jsstring \<Rightarrow> error + jsval" where
  "get_prop h v k =
     (if v = Undefined \<or> v = Null then Inl (Exception (js ''TypeError'') (cannot_read h k v))
      else Inr (case inherited v k of
                  Some x \<Rightarrow> x
                | None \<Rightarrow>
                    (case v of
                       Inherits p \<Rightarrow> if k = js ''__proto__'' \<and> rooted p then p else Undefined
                     | _ \<Rightarrow> Undefined)))"

section \<open>Format Converter\<close>

text \<open>Line 69: the text of the source, decoded when it is a buffer.\<close>

definition source_text :: "host \<Rightarrow> source \<Rightarrow> jsstring" where
  "source_text h src = (case src of Buffer b \<Rightarrow> Buffer_toString h b | Text s \<Rightarrow> s)"

text \<open>
  \<^verbatim>\<open>convert\<close> (lines 68 to 81). The \<^verbatim>\<open>switch\<close> compares with strict equality, so a tag that
  is absent or an array takes the default branch. The result is undefined (\<open>None\<close>) where
  \<^verbatim>\<open>JSON.stringify\<close> is.
\<close>

definition convert :: "host \<Rightarrow> source \<Rightarrow> qval option \<Rightarrow> error + jsstring option" where
  "convert h src lang =
     (let messages = source_text h src in
      if lang = Some (QStr (js ''yaml'')) \<or> lang = Some (QStr (js ''yml'')) then
        (case yaml_safeLoad h messages of
           Inl e \<Rightarrow> Inl e
         | Inr data \<Rightarrow> Inr (JSON_stringify h data (IndentStr [0x09])))
      else if lang = Some (QStr (js ''json5'')) then
        (case JSON5_parse h messages of
           Inl e \<Rightarrow> Inl e
         | Inr data \<Rightarrow> Inr (JSON_stringify h data NoIndent))
      else Inr (Some messages))"

section \<open>Message Table Builder\<close>

text \<open>
  \<^verbatim>\<open>Object.assign({}, { [l]: m })\<close> (line 55). The computed key makes \<open>l\<close> an own
  property of the inner literal, whatever \<open>l\<close> is; \<^verbatim>\<open>Object.assign\<close> then copies it by
  assignment to the fresh target. For every name but one the assignment creates the own
  property. For \<^verbatim>\<open>__proto__\<close> the assignment runs the setter of \<^verbatim>\<open>Object.prototype\<close>:
  the target gets no own property; its prototype becomes \<open>m\<close> when \<open>m\<close> is an object, an
  array or null, and stays as it is otherwise.
\<close>

definition Object_assign_one :: "jsstring \<Rightarrow> jsval \<Rightarrow> jsval" where
  "Object_assign_one l m =
     (if l = js ''__proto__'' then
        (case m of
           Obj ps \<Rightarrow> Inherits m
         | Arr xs \<Rightarrow> Inherits m
         | Inherits p \<Rightarrow> Inherits m
         | Null \<Rightarrow> Inherits Null
         | _ \<Rightarrow> Obj fmempty)
      else Obj (fmupd l m fmempty))"

text \<open>
  Lines 51 to 56 of \<^verbatim>\<open>generateCode\<close>: convert, parse (an undefined text is parsed as the
  string \<^verbatim>\<open>undefined\<close>), and wrap under \<^verbatim>\<open>attrs.locale\<close> when that is truthy and a string.
\<close>

definition generateCode_messages :: "host \<Rightarrow> source \<Rightarrow> ParsedUrlQuery \<Rightarrow> error + jsval" where
  "generateCode_messages h src attrs =
     (case convert h src (attrs (js ''lang'')) of
        Inl e \<Rightarrow> Inl e
      | Inr data \<Rightarrow>
          (case JSON_parse h (case data of None \<Rightarrow> js ''undefined'' | Some s \<Rightarrow> s) of
             Inl e \<Rightarrow> Inl e
           | Inr messages \<Rightarrow>
               Inr (case attrs (js ''locale'') of
                      Some (QStr l) \<Rightarrow>
                        if truthy_attr (Some (QStr l)) then Object_assign_one l messages
                        else messages
                    | _ \<Rightarrow> messages)))"

section \<open>Eager path\<close>

text \<open>
  \<^verbatim>\<open>stringifyMessages\<close> (lines 83 to 85); \<^verbatim>\<open>cleanMessagesString\<close> on undefined is the
  engine's TypeError for reading \<^verbatim>\<open>replace\<close>.
\<close>

definition stringifyMessages :: "host \<Rightarrow> jsval \<Rightarrow> error + jsstring" where
  "stringifyMessages h messages =
     (case JSON_stringify h messages NoIndent of
        None \<Rightarrow> Inl (Exception (js ''TypeError'') (cannot_read h (js ''replace'') Undefined))
      | Some s \<Rightarrow> Inr (single_quoted (cleanMessagesString s)))"

section \<open>Lazy Fragment Materializer\<close>

text \<open>
  The regular expression of line 100, \<^verbatim>\<open>/(^|[\\/])([^\\/?]+)(\?|$)/\<close>. \<open>match_name\<close> is its
  second and third group at a given position: the longest run of units other than
  backslash, slash and question mark, not empty, and after it a question mark or the end
  (a shorter run is followed by a unit of the run, so backtracking finds nothing more).
  \<open>filename_match\<close> tries the positions from the left as the engine does; at each it tries
  \<^verbatim>\<open>^\<close> first, which holds at index 0 only, then a backslash or slash.
\<close>

definition name_unit :: "jschar \<Rightarrow> bool" where
  "name_unit c = (c \<noteq> backslash \<and> c \<noteq> 0x2F \<and> c \<noteq> 0x3F)"

definition match_name :: "jsstring \<Rightarrow> jsstring option" where
  "match_name s =
     (let name = takeWhile name_unit s in
      if name \<noteq> [] \<and> (case dropWhile name_unit s of [] \<Rightarrow> True | c # r \<Rightarrow> c = 0x3F)
      then Some name else None)"

fun filename_match :: "bool \<Rightarrow> jsstring \<Rightarrow> jsstring option" where
  "filename_match at_start [] = None"
| "filename_match at_start (c # cs) =
     (case (if at_start then match_name (c # cs) else None) of
        Some name \<Rightarrow> Some name
      | None \<Rightarrow>
          (case (if c = backslash \<or> c = 0x2F then match_name cs else None) of
             Some name \<Rightarrow> Some name
           | None \<Rightarrow> filename_match False cs))"

text \<open>
  The object literal of lines 125 to 132, as the properties of \<^verbatim>\<open>localeSpecificMessages\<close>:
  one key, the locale, over the spread of \<^verbatim>\<open>messages[options.fallbackLocale]\<close> overlaid by
  the spread of \<^verbatim>\<open>messages[locale] || {}\<close>.
\<close>

definition localeSpecificMessages ::
  "host \<Rightarrow> jsval \<Rightarrow> jsstring \<Rightarrow> jsstring \<Rightarrow> error + (jsstring, jsval) fmap" where
  "localeSpecificMessages h messages fallback locale =
     (case get_prop h messages fallback of
        Inl e \<Rightarrow> Inl e
      | Inr base \<Rightarrow>
          (case get_prop h messages locale of
             Inl e \<Rightarrow> Inl e
           | Inr own \<Rightarrow>
               Inr (fmupd locale
                      (Obj (own_props base ++\<^sub>f own_props (if truthy own then own else Obj fmempty)))
                      fmempty)))"

definition prefix :: jsstring where
  "prefix = js ''__vue-i18n__''"

text \<open>
  The callback of \<^verbatim>\<open>options.locales.map\<close> (lines 123 to 134), locale by locale; an exception
  ends the loop and keeps what was written before it.
\<close>

fun write_fragments ::
  "host \<Rightarrow> jsstring \<Rightarrow> jsstring \<Rightarrow> jsval \<Rightarrow> jsstring \<Rightarrow> jsstring list \<Rightarrow> event list
     \<Rightarrow> error option \<times> event list" where
  "write_fragments h dir filename messages fallback [] t = (None, t)"
| "write_fragments h dir filename messages fallback (locale # rest) t =
     (let filePath = dir @ js ''/'' @ prefix @ locale @ js ''__'' @ filename in
      case localeSpecificMessages h messages fallback locale of
        Inl e \<Rightarrow> (Some e, t)
      | Inr fragment \<Rightarrow>
          (let data = json_text h (Obj fragment) (IndentNum 2) in
           case fs_writeFileSync h t filePath data of
             Some e \<Rightarrow> (Some e, t)
           | None \<Rightarrow>
               write_fragments h dir filename messages fallback rest
                 (t @ [WriteFileSync filePath data])))"

definition ConfigurationError :: error where
  "ConfigurationError =
     Error (js (''[VueI18nLoaderPlugin Error] The options \"locales\" and \"fallbackLocale\" '' @
                ''are required with lazy loaded files.''))"

text \<open>
  \<^verbatim>\<open>generateDynamicRequireString\<close> (lines 109 to 136). \<^verbatim>\<open>!options.locales\<close> holds of an absent
  list only (an array is truthy, also the empty one); \<^verbatim>\<open>!options.fallbackLocale\<close> holds of an
  absent and of an empty string.
\<close>

definition generateDynamicRequireString ::
  "host \<Rightarrow> jsstring \<Rightarrow> jsval \<Rightarrow> VueI18nLoaderOptions \<Rightarrow> event list
     \<Rightarrow> (error + jsstring) \<times> event list" where
  "generateDynamicRequireString h filename messages options t =
     (case locales options of
        None \<Rightarrow> (Inl ConfigurationError, t)
      | Some ls \<Rightarrow>
          (case fallbackLocale options of
             None \<Rightarrow> (Inl ConfigurationError, t)
           | Some fallback \<Rightarrow>
               if fallback = [] then (Inl ConfigurationError, t)
               else
                 (case tmp_dirSync h t of
                    Inl e \<Rightarrow> (Inl e, t)
                  | Inr dir \<Rightarrow>
                      (case write_fragments h dir filename messages fallback ls (t @ [DirSync dir]) of
                         (Some e, t') \<Rightarrow> (Inl e, t')
                       | (None, t') \<Rightarrow>
                           (Inr (js ''require('' @ [apostrophe] @ dir @ js ''/'' @ prefix @ [apostrophe]
                                 @ js '' + window.__VUE_I18N_CURRENT_LOCALE__ + '' @ [apostrophe]
                                 @ js ''__'' @ filename @ [apostrophe] @ js '')''), t')))))"

text \<open>\<^verbatim>\<open>stringifyLazyMessages\<close> (lines 95 to 107).\<close>

definition stringifyLazyMessages ::
  "host \<Rightarrow> jsstring \<Rightarrow> jsval \<Rightarrow> VueI18nLoaderOptions \<Rightarrow> event list
     \<Rightarrow> (error + jsstring) \<times> event list" where
  "stringifyLazyMessages h path messages options t =
     (let filename = (case filename_match True path of
                        None \<Rightarrow> js ''locale.json''
                      | Some name \<Rightarrow> if name = [] then js ''locale.json'' else name) in
      case generateDynamicRequireString h filename messages options t of
        (Inl e, t') \<Rightarrow> (Inl e, t')
      | (Inr req, t') \<Rightarrow> (Inr (js ''JSON.stringify('' @ req @ js '')''), t'))"

section \<open>Code Emitter\<close>

text \<open>The template literal of lines 61 to 65, with \<^verbatim>\<open>${messagesString}\<close> filled in.\<close>

definition module_text :: "jsstring \<Rightarrow> jsstring" where
  "module_text messagesString =
     js ''module.exports = function (Component) {\<newline>''
     @ js ''  Component.options.__i18n = Component.options.__i18n || []\<newline>''
     @ js ''  Component.options.__i18n.push('' @ messagesString @ js '')\<newline>''
     @ js ''  delete Component.options._Ctor\<newline>''
     @ js ''}\<newline>''"

text \<open>
  The function that this text defines, statement by statement (lines 62 to 64), on the
  options of a component: \<^verbatim>\<open>__i18n\<close> is an array or absent, \<^verbatim>\<open>_Ctor\<close> is the constructor
  cache or absent. \<open>entry\<close> is the value of the expression pushed.
\<close>

record ('e, 'c) component_options =
  i18n :: "'e list option"
  Ctor :: "'c option"

definition emitted_function ::
  "'e \<Rightarrow> ('e, 'c) component_options \<Rightarrow> ('e, 'c) component_options" where
  "emitted_function entry opts =
     (let opts1 = opts\<lparr>i18n := Some (case i18n opts of None \<Rightarrow> [] | Some xs \<Rightarrow> xs)\<rparr>;
          opts2 = opts1\<lparr>i18n := map_option (\<lambda>xs. xs @ [entry]) (i18n opts1)\<rparr>
      in opts2\<lparr>Ctor := None\<rparr>)"

text \<open>\<^verbatim>\<open>generateCode\<close> (lines 45 to 66).\<close>

definition generateCode ::
  "host \<Rightarrow> source \<Rightarrow> jsstring \<Rightarrow> ParsedUrlQuery \<Rightarrow> VueI18nLoaderOptions \<Rightarrow> event list
     \<Rightarrow> (error + jsstring) \<times> event list" where
  "generateCode h src path attrs options t =
     (case generateCode_messages h src attrs of
        Inl e \<Rightarrow> (Inl e, t)
      | Inr messages \<Rightarrow>
          (case (if truthy_attr (attrs (js ''lazy''))
                 then stringifyLazyMessages h path messages options t
                 else (stringifyMessages h messages, t)) of
             (Inl e, t') \<Rightarrow> (Inl e, t')
           | (Inr messagesString, t') \<Rightarrow> (Inr (module_text messagesString), t')))"

section \<open>Transform Entry Point\<close>

text \<open>
  What \<^verbatim>\<open>loader\<close> reads of \<^verbatim>\<open>this\<close>: the version (absent before webpack 2), whether
  \<^verbatim>\<open>cacheable\<close> exists, the path and the query of the resource, and the options.
\<close>

record loader_context =
  this_version :: "int option"
  this_cacheable :: bool
  this_resourcePath :: jsstring
  this_resourceQuery :: jsstring
  this_query :: VueI18nLoaderOptions

definition CapabilityError :: error where
  "CapabilityError = Error (js ''support webpack 2 later'')"

text \<open>\<^verbatim>\<open>loader\<close> (lines 15 to 43): the events it adds to those before it.\<close>

definition loader ::
  "host \<Rightarrow> loader_context \<Rightarrow> source \<Rightarrow> RawSourceMap option \<Rightarrow> event list \<Rightarrow> event list" where
  "loader h this src sourceMap t =
     (if (case this_version this of None \<Rightarrow> False | Some v \<Rightarrow> v \<noteq> 0 \<and> 2 \<le> v) then
        (let t1 = (if this_cacheable this then t @ [Cacheable] else t) in
         case generateCode h src (this_resourcePath this)
                (querystring_parse h (this_resourceQuery this)) (this_query this) t1 of
           (Inr code, t2) \<Rightarrow> t2 @ [Callback (Inr (code, sourceMap))]
         | (Inl err, t2) \<Rightarrow> t2 @ [EmitError (message err), Callback (Inl err)])
      else
        t @ [EmitError (message CapabilityError), Callback (Inl CapabilityError)])"

section \<open>What the materializer is compared with\<close>

text \<open>
  The entry of a message table under a key, as the specification reads it for the merge:
  the mapping stored there, and the empty mapping when the key is absent.
\<close>

definition table_entry :: "(jsstring, jsval) fmap \<Rightarrow> jsstring \<Rightarrow> (jsstring, jsval) fmap" where
  "table_entry m k = (case fmlookup m k of None \<Rightarrow> fmempty | Some v \<Rightarrow> own_props v)"

text \<open>The load expression of line 135.\<close>

definition load_expression :: "jsstring \<Rightarrow> jsstring \<Rightarrow> jsstring" where
  "load_expression dir filename =
     js ''require('' @ [apostrophe] @ dir @ js ''/__vue-i18n__'' @ [apostrophe]
     @ js '' + window.__VUE_I18N_CURRENT_LOCALE__ + '' @ [apostrophe]
     @ js ''__'' @ filename @ [apostrophe] @ js '')''"

section \<open>A host for the closed instances\<close>

text \<open>
  Libraries that know the empty object (and \<^verbatim>\<open>JSON.parse\<close> one more document) and two
  queries, and a file system that grants every request: \<^verbatim>\<open>JSON.parse('{}')\<close> is the empty
  object; the serializer's text is \<^verbatim>\<open>{}\<close> at every indentation, which is the text of
  every object without own properties; \<^verbatim>\<open>querystring.parse\<close> splits at the ampersands,
  keeps the question mark in the first key and gives a key without a value the empty
  string. The instances below never read the serializer's text for a value of another
  kind, nor the decoding of a buffer (here byte by byte, as for ASCII).
\<close>

definition sample_host :: host where
  "sample_host =
     \<lparr>yaml_safeLoad = (\<lambda>s. if s = js ''{}'' then Inr (Obj fmempty)
                            else Inl (Exception (js ''YAMLException'') [])),
      JSON5_parse = (\<lambda>s. if s = js ''{}'' then Inr (Obj fmempty)
                          else Inl (Exception (js ''SyntaxError'') [])),
      JSON_parse =
        (\<lambda>s. if s = js ''{}'' then Inr (Obj fmempty)
             else if s = js ''{\"hello\":\"hi\"}''
             then Inr (Obj (fmupd (js ''hello'') (Str (js ''hi'')) fmempty))
             else Inl (Exception (js ''SyntaxError'') [])),
      json_text = (\<lambda>v ind. js ''{}''),
      Buffer_toString = map ucast,
      querystring_parse =
        (\<lambda>q. if q = js ''?vue&lazy=true''
             then Map.empty(js ''?vue'' \<mapsto> QStr [], js ''lazy'' \<mapsto> QStr (js ''true''))
             else if q = js ''?vue&lazy''
             then Map.empty(js ''?vue'' \<mapsto> QStr [], js ''lazy'' \<mapsto> QStr [])
             else Map.empty),
      cannot_read = (\<lambda>k v. []),
      tmp_dirSync = (\<lambda>t. Inr (js ''/tmp/tmp-1'')),
      fs_writeFileSync = (\<lambda>t p d. None)\<rparr>"

section \<open>Properties of the sanitizer\<close>

lemma replace_all_Nil: "replace_all c r [] = []"
  by (simp add: replace_all_def)

lemma replace_all_append: "replace_all c r (xs @ ys) = replace_all c r xs @ replace_all c r ys"
  by (simp add: replace_all_def)

lemma replace_all_Cons: "replace_all c r (x # xs) = (if x = c then r else [x]) @ replace_all c r xs"
  by (simp add: replace_all_def)

lemma replace_all_absent: "c \<notin> set s \<Longrightarrow> replace_all c r s = s"
  by (induction s) (auto simp: replace_all_def)

lemma clean_Nil: "cleanMessagesString [] = []"
  by (simp add: cleanMessagesString_def replace_all_Nil)

lemma clean_singleton: "cleanMessagesString [c] = clean_unit c"
  by (simp add: cleanMessagesString_def clean_unit_def replace_all_def js_def)

lemma clean_append: "cleanMessagesString (xs @ ys) = cleanMessagesString xs @ cleanMessagesString ys"
  by (simp add: cleanMessagesString_def replace_all_append)

lemma clean_Cons: "cleanMessagesString (c # s) = clean_unit c @ cleanMessagesString s"
  using clean_append [of "[c]" s] by (simp add: clean_singleton)

lemma clean_unitwise: "cleanMessagesString s = concat (map clean_unit s)"
  by (induction s) (simp_all add: clean_Nil clean_Cons)

lemma escape_separators_Cons:
  "escape_separators (c # s) =
     (if c = LS then backslash # js ''u2028''
      else if c = PS then backslash # js ''u2029'' else [c]) @ escape_separators s"
  by (simp add: escape_separators_def replace_all_Cons replace_all_append js_def replace_all_def)

lemma unescape_clean_unit:
  assumes "c \<noteq> LF" and "c \<noteq> CR"
  shows "js_unescape (clean_unit c @ rest) =
           map_option ((@) (escape_separators [c])) (js_unescape rest)"
proof -
  consider "c = LS" | "c = PS" | "c = backslash" | "c = apostrophe"
    | "c \<noteq> LS" "c \<noteq> PS" "c \<noteq> backslash" "c \<noteq> apostrophe"
    by blast
  then show ?thesis
  proof cases
    case 1
    then show ?thesis
      by (cases "js_unescape rest")
        (simp_all add: clean_unit_def escape_separators_def replace_all_def js_def single_escape_def)
  next
    case 2
    then show ?thesis
      by (cases "js_unescape rest")
        (simp_all add: clean_unit_def escape_separators_def replace_all_def js_def single_escape_def)
  next
    case 3
    then show ?thesis
      by (cases "js_unescape rest")
        (simp_all add: clean_unit_def escape_separators_def replace_all_def js_def single_escape_def)
  next
    case 4
    then show ?thesis
      by (cases "js_unescape rest")
        (simp_all add: clean_unit_def escape_separators_def replace_all_def js_def
          hex4_def hex2_def hex_digit_def)
  next
    case 5
    with assms show ?thesis
      by (cases "js_unescape rest")
        (simp_all add: clean_unit_def escape_separators_def replace_all_def)
  qed
qed

lemma unescape_clean:
  "LF \<notin> set s \<Longrightarrow> CR \<notin> set s \<Longrightarrow>
   js_unescape (cleanMessagesString s) = Some (escape_separators s)"
proof (induction s)
  case Nil
  then show ?case by (simp add: clean_Nil escape_separators_def replace_all_Nil)
next
  case (Cons c s)
  then have "c \<noteq> LF" "c \<noteq> CR" and IH: "js_unescape (cleanMessagesString s) = Some (escape_separators s)"
    by auto
  have "escape_separators (c # s) = escape_separators [c] @ escape_separators s"
    using replace_all_append [of _ _ "[c]" s]
    by (simp add: escape_separators_def replace_all_append)
  then show ?case
    using unescape_clean_unit [OF \<open>c \<noteq> LF\<close> \<open>c \<noteq> CR\<close>, of "cleanMessagesString s"] IH
    by (simp add: clean_Cons)
qed

lemma length_escape_separators:
  "length (escape_separators s) = length s + 5 * length (filter (\<lambda>c. c = LS \<or> c = PS) s)"
proof (induction s)
  case Nil
  show ?case by (simp add: escape_separators_def replace_all_Nil)
next
  case (Cons c s)
  then show ?case by (simp add: escape_separators_Cons js_def)
qed

lemma escape_separators_fixed: "escape_separators s = s \<longleftrightarrow> LS \<notin> set s \<and> PS \<notin> set s"
proof
  assume "escape_separators s = s"
  then have "length (filter (\<lambda>c. c = LS \<or> c = PS) s) = 0"
    using length_escape_separators [of s] by simp
  then show "LS \<notin> set s \<and> PS \<notin> set s"
    by (auto simp: filter_empty_conv)
next
  assume "LS \<notin> set s \<and> PS \<notin> set s"
  then show "escape_separators s = s"
    by (simp add: escape_separators_def replace_all_absent)
qed

lemma string_literal_value_single_quoted:
  "string_literal_value (single_quoted body) = js_unescape body"
  by (simp add: string_literal_value_def single_quoted_def)

lemma escape_once_clean_unit:
  "c \<noteq> LS \<Longrightarrow> c \<noteq> PS \<Longrightarrow> clean_unit c = escape_once_unit c"
  by (simp add: clean_unit_def escape_once_unit_def)

text \<open>
  Claim C1, as amended. For every text without a raw line feed or carriage return (the
  compact output of \<^verbatim>\<open>JSON.stringify\<close> has none), reading back the single-quoted literal
  that \<^verbatim>\<open>stringifyMessages\<close> builds around \<^verbatim>\<open>cleanMessagesString\<close> succeeds and yields the
  text in which each U+2028 and U+2029 stands as its six-unit escape (a backslash, then u2028 or
  u2029); the value read back is the original text exactly when the text holds neither
  separator.
\<close>

theorem literal_reads_back_with_separators_escaped:
  assumes "LF \<notin> set s" and "CR \<notin> set s"
  shows "string_literal_value (single_quoted (cleanMessagesString s)) = Some (escape_separators s)
       \<and> ((string_literal_value (single_quoted (cleanMessagesString s)) = Some s)
            = (LS \<notin> set s \<and> PS \<notin> set s))"
  using assms
  by (simp add: string_literal_value_single_quoted unescape_clean escape_separators_fixed)

theorem literal_reads_back_witness:
  "LF \<notin> set [0x22, apostrophe, backslash, LS, 0x22 :: jschar]
   \<and> CR \<notin> set [0x22, apostrophe, backslash, LS, 0x22 :: jschar]
   \<and> string_literal_value
        (single_quoted (cleanMessagesString [0x22, apostrophe, backslash, LS, 0x22]))
       = Some (0x22 # apostrophe # backslash # backslash # js ''u2028'' @ [0x22])"
  using literal_reads_back_with_separators_escaped
    [of "[0x22, apostrophe, backslash, LS, 0x22]"]
  by (simp add: escape_separators_def replace_all_def js_def)

text \<open>
  The claim C1 as the specification states it fails on the JSON text of the one-separator
  string: the literal reads back as eight code units, not the original three.
\<close>

theorem literal_round_trip_counterexample:
  "string_literal_value (single_quoted (cleanMessagesString [0x22, LS, 0x22]))
     = Some (0x22 # backslash # js ''u2028'' @ [0x22])
   \<and> string_literal_value (single_quoted (cleanMessagesString [0x22, LS, 0x22]))
     \<noteq> Some [0x22, LS, 0x22]"
  by (simp add: string_literal_value_single_quoted cleanMessagesString_def replace_all_def
      js_def single_escape_def)

text \<open>
  Claim C3, as amended. The sanitizer replaces the separators U+2028 and U+2029 first, then
  doubles each backslash, then replaces each apostrophe. Unit by unit this is \<open>clean_unit\<close>:
  the backslash that a separator's escape introduces is doubled by the later backslash step
  (U+2028 becomes the seven units \<^verbatim>\<open>\\u2028\<close>), the backslash of the apostrophe's escape,
  introduced last, is not. On a text without separators the chain is the single-pass
  escaping.
\<close>

theorem sanitizer_order:
  "cleanMessagesString s =
     replace_all apostrophe (backslash # js ''u0027'')
       (replace_all backslash [backslash, backslash] (escape_separators s))
   \<and> cleanMessagesString s = concat (map clean_unit s)
   \<and> (LS \<notin> set s \<and> PS \<notin> set s \<longrightarrow> cleanMessagesString s = escape_once s)"
proof -
  have "cleanMessagesString s = escape_once s" if "LS \<notin> set s" "PS \<notin> set s"
    using that by (induction s) (auto simp: clean_Nil clean_Cons escape_once_def escape_once_clean_unit)
  then show ?thesis
    by (simp add: clean_unitwise [symmetric]) (simp add: cleanMessagesString_def escape_separators_def)
qed

theorem sanitizer_order_witness:
  "LS \<notin> set [0x61, apostrophe, backslash :: jschar]
   \<and> PS \<notin> set [0x61, apostrophe, backslash :: jschar]
   \<and> cleanMessagesString [0x61, apostrophe, backslash]
       = 0x61 # backslash # js ''u0027'' @ [backslash, backslash]"
  using sanitizer_order [of "[0x61, apostrophe, backslash]", THEN conjunct2, THEN conjunct2]
  by (simp add: escape_once_def escape_once_unit_def js_def)

text \<open>
  The claim C3 as the specification states it, that the order keeps a later step from
  escaping what an earlier step introduced, fails on the one-unit text U+2028: the chain
  yields seven units, two of them backslashes, where escaping once yields six.
\<close>

theorem sanitizer_double_escape_counterexample:
  "cleanMessagesString [LS] = backslash # backslash # js ''u2028''
   \<and> escape_once [LS] = backslash # js ''u2028''
   \<and> cleanMessagesString [LS] \<noteq> escape_once [LS]"
  by (simp add: cleanMessagesString_def replace_all_def escape_once_def escape_once_unit_def js_def)
section \<open>Properties of the converter, the builder and the entry point\<close>

text \<open>
  Claim C5. \<^verbatim>\<open>convert\<close> dispatches on the tag: for \<^verbatim>\<open>yaml\<close> and \<^verbatim>\<open>yml\<close> the text is parsed
  by the YAML parser and the document serialized with a tab as indentation; for \<^verbatim>\<open>json5\<close>
  it is parsed by the relaxed parser and serialized without indentation; a parser's
  exception is the result. For every other tag, an absent one and an array included, the
  result is the text of the input, unchanged and unparsed. The result is a function of the
  source and the tag alone (and of the libraries): \<open>convert\<close> neither takes nor returns events.
\<close>

theorem convert_dispatch:
  "(lang = Some (QStr (js ''yaml'')) \<or> lang = Some (QStr (js ''yml'')) \<longrightarrow>
      convert h src lang =
        (case yaml_safeLoad h (source_text h src) of
           Inl e \<Rightarrow> Inl e
         | Inr data \<Rightarrow> Inr (JSON_stringify h data (IndentStr [0x09]))))
   \<and> (lang = Some (QStr (js ''json5'')) \<longrightarrow>
      convert h src lang =
        (case JSON5_parse h (source_text h src) of
           Inl e \<Rightarrow> Inl e
         | Inr data \<Rightarrow> Inr (JSON_stringify h data NoIndent)))
   \<and> (lang \<noteq> Some (QStr (js ''yaml'')) \<and> lang \<noteq> Some (QStr (js ''yml''))
        \<and> lang \<noteq> Some (QStr (js ''json5'')) \<longrightarrow>
      convert h src lang = Inr (Some (source_text h src)))
   \<and> (\<forall>data. data \<noteq> Undefined \<longrightarrow>
        JSON_stringify h data (IndentStr [0x09]) = Some (json_text h data (IndentStr [0x09]))
        \<and> JSON_stringify h data NoIndent = Some (json_text h data NoIndent))
   \<and> source_text h (Text s) = s"
proof -
  have "js ''json5'' \<noteq> js ''yaml''" "js ''json5'' \<noteq> js ''yml''"
    by (simp_all add: js_def)
  then show ?thesis
    by (auto simp: convert_def Let_def JSON_stringify_def source_text_def split: jsval.splits)
qed

theorem convert_dispatch_witness:
  "convert sample_host (Text (js ''{}'')) (Some (QStr (js ''yaml'')))
     = Inr (Some (json_text sample_host (Obj fmempty) (IndentStr [0x09])))
   \<and> convert sample_host (Text (js ''{}'')) (Some (QStr (js ''yml'')))
     = Inr (Some (json_text sample_host (Obj fmempty) (IndentStr [0x09])))
   \<and> convert sample_host (Text (js ''{}'')) (Some (QStr (js ''json5'')))
     = Inr (Some (json_text sample_host (Obj fmempty) NoIndent))
   \<and> convert sample_host (Text (js ''{ not json'')) None = Inr (Some (js ''{ not json''))
   \<and> convert sample_host (Text (js ''{ not json'')) (Some (QArr [js ''yaml'']))
     = Inr (Some (js ''{ not json''))"
proof -
  have y: "yaml_safeLoad sample_host (js ''{}'') = Inr (Obj fmempty)"
    and j: "JSON5_parse sample_host (js ''{}'') = Inr (Obj fmempty)"
    by (simp_all add: sample_host_def)
  have ne: "js ''yml'' \<noteq> js ''yaml''" "js ''yml'' \<noteq> js ''json5''" "js ''json5'' \<noteq> js ''yaml''"
    by (simp_all add: js_def)
  show ?thesis
    using convert_dispatch [of "Some (QStr (js ''yaml''))" sample_host "Text (js ''{}'')" "js ''{}''"]
      convert_dispatch [of "Some (QStr (js ''yml''))" sample_host "Text (js ''{}'')" "js ''{}''"]
      convert_dispatch [of "Some (QStr (js ''json5''))" sample_host "Text (js ''{}'')" "js ''{}''"]
      convert_dispatch [of None sample_host "Text (js ''{ not json'')" "js ''{ not json''"]
      convert_dispatch [of "Some (QArr [js ''yaml''])" sample_host "Text (js ''{ not json'')"
        "js ''{ not json''"]
      y j ne
    by simp
qed

lemma messages_parsed:
  assumes "convert h src (attrs (js ''lang'')) = Inr data"
    and "JSON_parse h (case data of None \<Rightarrow> js ''undefined'' | Some s \<Rightarrow> s) = Inr parsed"
  shows "generateCode_messages h src attrs =
           Inr (case attrs (js ''locale'') of
                  Some (QStr l) \<Rightarrow> if l \<noteq> [] then Object_assign_one l parsed else parsed
                | _ \<Rightarrow> parsed)"
  using assms
  by (simp add: generateCode_messages_def truthy_attr_def split: option.splits qval.splits)

text \<open>
  Under every non-empty locale other than \<^verbatim>\<open>__proto__\<close> the message table is the object
  with that one key over the parsed value; without a locale it is the parsed value.
\<close>

lemma wraps_under_ordinary_key:
  assumes "convert h src (attrs (js ''lang'')) = Inr data"
    and "JSON_parse h (case data of None \<Rightarrow> js ''undefined'' | Some s \<Rightarrow> s) = Inr parsed"
    and "attrs (js ''locale'') = Some (QStr l)" and "l \<noteq> []" and "l \<noteq> js ''__proto__''"
  shows "generateCode_messages h src attrs = Inr (Obj (fmupd l parsed fmempty))"
    and "get_prop h (Obj (fmupd l parsed fmempty)) k = Inr (if k = l then parsed else Undefined)"
  using messages_parsed [of h src attrs data parsed] assms
  by (auto simp: get_prop_def own_props_def Object_assign_one_def)

lemma no_locale_as_is:
  assumes "convert h src (attrs (js ''lang'')) = Inr data"
    and "JSON_parse h (case data of None \<Rightarrow> js ''undefined'' | Some s \<Rightarrow> s) = Inr parsed"
    and "attrs (js ''locale'') = None"
  shows "generateCode_messages h src attrs = Inr parsed"
  using messages_parsed [of h src attrs data parsed] assms
  by simp

text \<open>
  Claim C10. The wrapping happens only for a truthy string: when the resource converts and
  parses to a value and \<^verbatim>\<open>attrs.locale\<close> is an array (a repeated \<^verbatim>\<open>locale\<close> parameter) or
  the empty string, the message table is the parsed value as it is.
\<close>

theorem no_wrap_unless_truthy_string:
  assumes "convert h src (attrs (js ''lang'')) = Inr data"
    and "JSON_parse h (case data of None \<Rightarrow> js ''undefined'' | Some s \<Rightarrow> s) = Inr parsed"
    and "attrs (js ''locale'') = Some (QArr ls) \<or> attrs (js ''locale'') = Some (QStr [])"
  shows "generateCode_messages h src attrs = Inr parsed"
  using messages_parsed [of h src attrs data parsed] assms
  by auto

theorem no_wrap_unless_truthy_string_witness:
  "generateCode_messages sample_host (Text (js ''{}''))
     (Map.empty(js ''locale'' \<mapsto> QArr [js ''en'', js ''fr''])) = Inr (Obj fmempty)
   \<and> generateCode_messages sample_host (Text (js ''{}''))
     (Map.empty(js ''locale'' \<mapsto> QStr [])) = Inr (Obj fmempty)"
proof -
  have ne: "js ''lang'' \<noteq> js ''locale''"
    by (simp add: js_def)
  have c: "convert sample_host (Text (js ''{}'')) ((Map.empty(js ''locale'' \<mapsto> a)) (js ''lang''))
             = Inr (Some (js ''{}''))" for a
    using ne by (simp add: convert_def source_text_def)
  have p: "JSON_parse sample_host (case Some (js ''{}'') of
                                     None \<Rightarrow> js ''undefined'' | Some s \<Rightarrow> s)
             = Inr (Obj fmempty)"
    by (simp add: sample_host_def)
  show ?thesis
    using no_wrap_unless_truthy_string [of sample_host "Text (js ''{}'')"
        "Map.empty(js ''locale'' \<mapsto> QArr [js ''en'', js ''fr''])" "Some (js ''{}'')" "Obj fmempty"
        "[js ''en'', js ''fr'']"]
      no_wrap_unless_truthy_string [of sample_host "Text (js ''{}'')"
        "Map.empty(js ''locale'' \<mapsto> QStr [])" "Some (js ''{}'')" "Obj fmempty" "[]"]
      c [of "QArr [js ''en'', js ''fr'']"] c [of "QStr []"] p
    by simp
qed

text \<open>
  Claim C7. When the version of the host is absent or below 2, \<^verbatim>\<open>loader\<close> adds exactly two
  events: the message \<^verbatim>\<open>support webpack 2 later\<close> on the error channel, then the callback
  with an \<^verbatim>\<open>Error\<close> of that message. The events name neither the source nor the resource,
  and they are the same for all libraries: nothing of the pipeline, the converter included,
  is evaluated, nothing is marked cacheable and nothing reaches the file system.
\<close>

theorem unsupported_version_aborts:
  assumes "this_version this = None \<or> (\<exists>v. this_version this = Some v \<and> v < 2)"
  shows "loader h this src sourceMap t =
           t @ [EmitError (js ''support webpack 2 later''),
                Callback (Inl (Error (js ''support webpack 2 later'')))]"
  using assms by (auto simp: loader_def CapabilityError_def)

theorem unsupported_version_aborts_witness:
  "loader sample_host
     \<lparr>this_version = None, this_cacheable = True, this_resourcePath = js ''/a/b.vue'',
      this_resourceQuery = js ''?vue&lazy=true'',
      this_query = \<lparr>locales = None, fallbackLocale = None\<rparr>\<rparr>
     (Text (js ''{}'')) None []
   = [EmitError (js ''support webpack 2 later''),
      Callback (Inl (Error (js ''support webpack 2 later'')))]
   \<and> loader sample_host
     \<lparr>this_version = Some 1, this_cacheable = True, this_resourcePath = js ''/a/b.vue'',
      this_resourceQuery = js ''?vue&lazy=true'',
      this_query = \<lparr>locales = None, fallbackLocale = None\<rparr>\<rparr>
     (Text (js ''{}'')) None []
   = [EmitError (js ''support webpack 2 later''),
      Callback (Inl (Error (js ''support webpack 2 later'')))]"
proof -
  let ?absent = "\<lparr>this_version = None, this_cacheable = True, this_resourcePath = js ''/a/b.vue'',
      this_resourceQuery = js ''?vue&lazy=true'',
      this_query = \<lparr>locales = None, fallbackLocale = None\<rparr>\<rparr>"
  let ?one = "\<lparr>this_version = Some 1, this_cacheable = True, this_resourcePath = js ''/a/b.vue'',
      this_resourceQuery = js ''?vue&lazy=true'',
      this_query = \<lparr>locales = None, fallbackLocale = None\<rparr>\<rparr>"
  have a: "this_version ?absent = None \<or> (\<exists>v. this_version ?absent = Some v \<and> v < 2)"
    by simp
  have b: "this_version ?one = None \<or> (\<exists>v. this_version ?one = Some v \<and> v < 2)"
    by simp
  show ?thesis
    using unsupported_version_aborts [OF a, of sample_host "Text (js ''{}'')" None "[]"]
      unsupported_version_aborts [OF b, of sample_host "Text (js ''{}'')" None "[]"]
    by simp
qed

section \<open>Properties of the two paths and of the emitter\<close>

lemma configuration_error:
  assumes "locales options = None \<or> fallbackLocale options = None
           \<or> fallbackLocale options = Some []"
  shows "generateDynamicRequireString h filename messages options t = (Inl ConfigurationError, t)"
  using assms
  by (auto simp: generateDynamicRequireString_def split: option.splits)

lemma generateCode_lazy:
  assumes "generateCode_messages h src attrs = Inr messages"
    and "truthy_attr (attrs (js ''lazy''))"
  shows "generateCode h src path attrs options t =
           (case stringifyLazyMessages h path messages options t of
              (r, t') \<Rightarrow> (map_sum id module_text r, t'))"
  using assms
  by (simp add: generateCode_def split: prod.splits sum.splits)

lemma generateCode_eager:
  assumes "generateCode_messages h src attrs = Inr messages"
    and "\<not> truthy_attr (attrs (js ''lazy''))"
  shows "generateCode h src path attrs options t =
           (map_sum id module_text (stringifyMessages h messages), t)"
  using assms
  by (simp add: generateCode_def split: prod.splits sum.splits)

lemma generateCode_parse_error:
  assumes "generateCode_messages h src attrs = Inl e"
  shows "generateCode h src path attrs options t = (Inl e, t)"
  using assms by (simp add: generateCode_def)

text \<open>
  Claim C4. When \<^verbatim>\<open>options.locales\<close> or \<^verbatim>\<open>options.fallbackLocale\<close> is missing (for the
  latter the code also counts the empty string), the materializer throws the error of line
  115 and adds no event: no directory is allocated and no file written. So do
  \<^verbatim>\<open>stringifyLazyMessages\<close> and, when \<^verbatim>\<open>attrs.lazy\<close> is set, \<^verbatim>\<open>generateCode\<close>: it adds no
  event, and it throws that error whenever the resource itself converts and parses (a
  resource that does not is refused before, by its parser). \<^verbatim>\<open>loader\<close> then reports the
  error on the error channel and to the callback, after at most marking the result
  cacheable.
\<close>

theorem lazy_without_options_fails_before_io:
  assumes "locales options = None \<or> fallbackLocale options = None
           \<or> fallbackLocale options = Some []"
  shows "generateDynamicRequireString h filename messages options t = (Inl ConfigurationError, t)
       \<and> stringifyLazyMessages h path messages options t = (Inl ConfigurationError, t)
       \<and> (truthy_attr (attrs (js ''lazy'')) \<longrightarrow>
            snd (generateCode h src path attrs options t) = t
            \<and> (\<forall>m. generateCode_messages h src attrs = Inr m \<longrightarrow>
                  generateCode h src path attrs options t = (Inl ConfigurationError, t)))
       \<and> (\<forall>v m. this_version this = Some v \<and> 2 \<le> v \<and> this_query this = options
              \<and> truthy_attr (querystring_parse h (this_resourceQuery this) (js ''lazy''))
              \<and> generateCode_messages h src (querystring_parse h (this_resourceQuery this)) = Inr m
            \<longrightarrow> loader h this src sourceMap t =
                  (if this_cacheable this then t @ [Cacheable] else t)
                  @ [EmitError (message ConfigurationError), Callback (Inl ConfigurationError)])"
proof -
  have lazy: "stringifyLazyMessages h p m options t' = (Inl ConfigurationError, t')" for p m t'
    by (simp add: stringifyLazyMessages_def configuration_error [OF assms])
  have code: "generateCode h s p a options t' = (Inl ConfigurationError, t')"
    if "generateCode_messages h s a = Inr m" "truthy_attr (a (js ''lazy''))" for s p a m t'
    using generateCode_lazy [OF that, of p options t'] by (simp add: lazy)
  have unchanged: "snd (generateCode h src path attrs options t) = t"
    if "truthy_attr (attrs (js ''lazy''))"
  proof (cases "generateCode_messages h src attrs")
    case (Inl e)
    then show ?thesis by (simp add: generateCode_parse_error)
  next
    case (Inr m)
    then show ?thesis using code [OF Inr that] by simp
  qed
  have entry: "loader h this src sourceMap t =
                 (if this_cacheable this then t @ [Cacheable] else t)
                 @ [EmitError (message ConfigurationError), Callback (Inl ConfigurationError)]"
    if "this_version this = Some v" "2 \<le> v" "this_query this = options"
      "truthy_attr (querystring_parse h (this_resourceQuery this) (js ''lazy''))"
      "generateCode_messages h src (querystring_parse h (this_resourceQuery this)) = Inr m"
    for v m
    using that code [OF that(5,4)]
    by (simp add: loader_def Let_def)
  show ?thesis
    using configuration_error [OF assms] lazy code unchanged entry
    by blast
qed

lemma messages_of_plain_text:
  assumes "attrs (js ''lang'') = None" and "attrs (js ''locale'') = None"
    and "JSON_parse h s = Inr v"
  shows "generateCode_messages h (Text s) attrs = Inr v"
  using assms by (simp add: generateCode_messages_def convert_def source_text_def)

lemma sample_JSON_parse: "JSON_parse sample_host (js ''{}'') = Inr (Obj fmempty)"
  by (simp add: sample_host_def)

lemma sample_query:
  "querystring_parse sample_host (js ''?vue&lazy=true'')
     = Map.empty(js ''?vue'' \<mapsto> QStr [], js ''lazy'' \<mapsto> QStr (js ''true''))"
  "querystring_parse sample_host (js ''?vue&lazy'')
     = Map.empty(js ''?vue'' \<mapsto> QStr [], js ''lazy'' \<mapsto> QStr [])"
  by (simp_all add: sample_host_def js_def)

lemma attr_names:
  "js ''lang'' \<noteq> js ''lazy''" "js ''locale'' \<noteq> js ''lazy''" "js ''lang'' \<noteq> js ''locale''"
  "js ''lang'' \<noteq> js ''?vue''" "js ''locale'' \<noteq> js ''?vue''" "js ''lazy'' \<noteq> js ''?vue''"
  by (simp_all add: js_def)

theorem lazy_without_options_witness:
  "generateDynamicRequireString sample_host (js ''b.vue'') (Obj fmempty)
     \<lparr>locales = None, fallbackLocale = Some (js ''en'')\<rparr> [] = (Inl ConfigurationError, [])
   \<and> generateCode sample_host (Text (js ''{}'')) (js ''/a/b.vue'')
       (Map.empty(js ''lazy'' \<mapsto> QStr (js ''true'')))
       \<lparr>locales = None, fallbackLocale = Some (js ''en'')\<rparr> [] = (Inl ConfigurationError, [])
   \<and> loader sample_host
       \<lparr>this_version = Some 2, this_cacheable = True, this_resourcePath = js ''/a/b.vue'',
        this_resourceQuery = js ''?vue&lazy=true'',
        this_query = \<lparr>locales = None, fallbackLocale = Some (js ''en'')\<rparr>\<rparr>
       (Text (js ''{}'')) None []
       = [Cacheable, EmitError (message ConfigurationError), Callback (Inl ConfigurationError)]"
proof -
  let ?options = "\<lparr>locales = None, fallbackLocale = Some (js ''en'')\<rparr>"
  let ?attrs = "Map.empty(js ''lazy'' \<mapsto> QStr (js ''true''))"
  let ?attrs' = "Map.empty(js ''?vue'' \<mapsto> QStr [], js ''lazy'' \<mapsto> QStr (js ''true''))"
  let ?ctx = "\<lparr>this_version = Some 2, this_cacheable = True, this_resourcePath = js ''/a/b.vue'',
        this_resourceQuery = js ''?vue&lazy=true'', this_query = ?options\<rparr>"
  have o: "locales ?options = None \<or> fallbackLocale ?options = None
           \<or> fallbackLocale ?options = Some []"
    by simp
  have l: "truthy_attr (?attrs (js ''lazy''))" "truthy_attr (?attrs' (js ''lazy''))"
    by (simp_all add: truthy_attr_def js_def)
  have m: "generateCode_messages sample_host (Text (js ''{}'')) ?attrs = Inr (Obj fmempty)"
    using attr_names by (intro messages_of_plain_text sample_JSON_parse) simp_all
  have m': "generateCode_messages sample_host (Text (js ''{}'')) ?attrs' = Inr (Obj fmempty)"
    using attr_names by (intro messages_of_plain_text sample_JSON_parse) simp_all
  show ?thesis
    using lazy_without_options_fails_before_io [OF o, of sample_host "js ''b.vue''" "Obj fmempty" "[]"
        "js ''/a/b.vue''" ?attrs "Text (js ''{}'')" ?ctx None]
      l m m'
    by (simp add: sample_query)
qed

section \<open>Properties of the materializer\<close>

lemma own_props_falsy: "\<not> truthy v \<Longrightarrow> own_props v = fmempty"
  by (cases v) (simp_all add: truthy_def own_props_def)

lemma own_props_or_empty: "own_props (if truthy v then v else Obj fmempty) = own_props v"
  by (simp add: own_props_falsy) (simp add: own_props_def)

lemma get_prop_table:
  "get_prop h (Obj m) k = Inr (case fmlookup m k of None \<Rightarrow> Undefined | Some x \<Rightarrow> x)"
  by (simp add: get_prop_def own_props_def split: option.splits)

lemma own_props_table_entry:
  "own_props (case fmlookup m k of None \<Rightarrow> Undefined | Some x \<Rightarrow> x) = table_entry m k"
  by (simp add: table_entry_def own_props_def split: option.splits)

lemma localeSpecificMessages_table:
  "localeSpecificMessages h (Obj m) fallback locale =
     Inr (fmupd locale (Obj (table_entry m fallback ++\<^sub>f table_entry m locale)) fmempty)"
  by (simp add: localeSpecificMessages_def get_prop_table own_props_or_empty own_props_table_entry)

lemma write_fragments_table:
  assumes "\<And>t' p d. fs_writeFileSync h t' p d = None"
  shows "write_fragments h dir filename (Obj m) fallback ls t =
           (None, t @ map (\<lambda>l. WriteFileSync (dir @ js ''/__vue-i18n__'' @ l @ js ''__'' @ filename)
                             (json_text h
                                (Obj (fmupd l (Obj (table_entry m fallback ++\<^sub>f table_entry m l)) fmempty))
                                (IndentNum 2))) ls)"
proof (induction ls arbitrary: t)
  case Nil
  show ?case by simp
next
  case (Cons l ls)
  have path: "dir @ js ''/'' @ prefix @ l @ js ''__'' @ filename
                = dir @ js ''/__vue-i18n__'' @ l @ js ''__'' @ filename"
    by (simp add: prefix_def js_def)
  show ?case
    by (simp add: localeSpecificMessages_table assms Cons.IH path Let_def del: append_assoc)
qed

lemma materialize_table:
  assumes "locales options = Some ls" and "fallbackLocale options = Some fallback"
    and "fallback \<noteq> []" and "tmp_dirSync h t = Inr dir"
    and "\<And>t' p d. fs_writeFileSync h t' p d = None"
  shows "generateDynamicRequireString h filename (Obj m) options t =
           (Inr (load_expression dir filename),
            t @ DirSync dir #
              map (\<lambda>l. WriteFileSync (dir @ js ''/__vue-i18n__'' @ l @ js ''__'' @ filename)
                         (json_text h
                            (Obj (fmupd l (Obj (table_entry m fallback ++\<^sub>f table_entry m l)) fmempty))
                            (IndentNum 2))) ls)"
proof -
  have expr: "js ''require('' @ [apostrophe] @ dir @ js ''/'' @ prefix @ [apostrophe]
                @ js '' + window.__VUE_I18N_CURRENT_LOCALE__ + '' @ [apostrophe]
                @ js ''__'' @ filename @ [apostrophe] @ js '')''
              = load_expression dir filename"
    by (simp add: load_expression_def prefix_def js_def)
  show ?thesis
    using assms(1-4) expr
    by (simp add: generateDynamicRequireString_def write_fragments_table [OF assms(5)])
qed




section \<open>Which path is taken\<close>

lemma sample_filename: "filename_match True (js ''/a/b.vue'') = Some (js ''b.vue'')"
  by (simp add: js_def match_name_def name_unit_def)

lemma sample_lazy:
  "stringifyLazyMessages sample_host (js ''/a/b.vue'') (Obj fmempty)
     \<lparr>locales = Some [js ''en''], fallbackLocale = Some (js ''en'')\<rparr> []
   = (Inr (js ''JSON.stringify('' @ load_expression (js ''/tmp/tmp-1'') (js ''b.vue'') @ js '')''),
      [DirSync (js ''/tmp/tmp-1''),
       WriteFileSync (js ''/tmp/tmp-1/__vue-i18n__en__b.vue'')
         (json_text sample_host (Obj (fmupd (js ''en'') (Obj fmempty) fmempty)) (IndentNum 2))])"
proof -
  let ?options = "\<lparr>locales = Some [js ''en''], fallbackLocale = Some (js ''en'')\<rparr>"
  have o: "locales ?options = Some [js ''en'']" "fallbackLocale ?options = Some (js ''en'')"
    "js ''en'' \<noteq> []"
    by (simp_all add: js_def)
  have io: "tmp_dirSync sample_host [] = Inr (js ''/tmp/tmp-1'')"
    "\<And>t' p d. fs_writeFileSync sample_host t' p d = None"
    by (simp_all add: sample_host_def)
  have path: "js ''/tmp/tmp-1'' @ js ''/__vue-i18n__'' @ js ''en'' @ js ''__'' @ js ''b.vue''
                = js ''/tmp/tmp-1/__vue-i18n__en__b.vue''"
    by (simp add: js_def)
  have name: "js ''b.vue'' \<noteq> []"
    by (simp add: js_def)
  show ?thesis
    using materialize_table [OF o io, of "js ''b.vue''" fmempty] name
    by (simp add: stringifyLazyMessages_def sample_filename table_entry_def path)
qed

lemma sample_eager:
  "stringifyMessages sample_host (Obj fmempty)
     = Inr (single_quoted (cleanMessagesString (json_text sample_host (Obj fmempty) NoIndent)))"
  by (simp add: stringifyMessages_def JSON_stringify_def)

text \<open>
  Claim C8, as amended. Once the resource has converted and parsed, the path depends on the
  truthiness of the parsed \<^verbatim>\<open>lazy\<close> value, not on its presence: when the parameter is absent
  or present with the empty value (as in \<^verbatim>\<open>&lazy\<close> and \<^verbatim>\<open>&lazy=\<close>), \<^verbatim>\<open>generateCode\<close> takes the
  eager path, the module text over \<^verbatim>\<open>stringifyMessages\<close>, and adds no event; when it is
  present with a non-empty value, whatever the value, or repeated, it takes the lazy path,
  the module text over \<^verbatim>\<open>stringifyLazyMessages\<close>, with the events of that.
\<close>

theorem lazy_path_iff_truthy:
  assumes "generateCode_messages h src attrs = Inr messages"
  shows "(attrs (js ''lazy'') = None \<or> attrs (js ''lazy'') = Some (QStr []) \<longrightarrow>
            generateCode h src path attrs options t =
              (map_sum id module_text (stringifyMessages h messages), t))
       \<and> ((\<exists>s. attrs (js ''lazy'') = Some (QStr s) \<and> s \<noteq> [])
            \<or> (\<exists>xs. attrs (js ''lazy'') = Some (QArr xs)) \<longrightarrow>
            generateCode h src path attrs options t =
              (case stringifyLazyMessages h path messages options t of
                 (r, t') \<Rightarrow> (map_sum id module_text r, t')))"
proof (intro conjI impI)
  assume "attrs (js ''lazy'') = None \<or> attrs (js ''lazy'') = Some (QStr [])"
  then have "\<not> truthy_attr (attrs (js ''lazy''))"
    by (auto simp: truthy_attr_def)
  then show "generateCode h src path attrs options t =
               (map_sum id module_text (stringifyMessages h messages), t)"
    by (rule generateCode_eager [OF assms])
next
  assume "(\<exists>s. attrs (js ''lazy'') = Some (QStr s) \<and> s \<noteq> [])
          \<or> (\<exists>xs. attrs (js ''lazy'') = Some (QArr xs))"
  then have "truthy_attr (attrs (js ''lazy''))"
    by (auto simp: truthy_attr_def)
  then show "generateCode h src path attrs options t =
               (case stringifyLazyMessages h path messages options t of
                  (r, t') \<Rightarrow> (map_sum id module_text r, t'))"
    by (rule generateCode_lazy [OF assms])
qed

theorem lazy_path_iff_truthy_witness:
  "generateCode sample_host (Text (js ''{}'')) (js ''/a/b.vue'') Map.empty
     \<lparr>locales = Some [js ''en''], fallbackLocale = Some (js ''en'')\<rparr> []
   = (Inr (module_text
            (single_quoted (cleanMessagesString (json_text sample_host (Obj fmempty) NoIndent)))),
      [])
   \<and> generateCode sample_host (Text (js ''{}'')) (js ''/a/b.vue'')
       (Map.empty(js ''lazy'' \<mapsto> QStr (js ''false'')))
       \<lparr>locales = Some [js ''en''], fallbackLocale = Some (js ''en'')\<rparr> []
   = (Inr (module_text
            (js ''JSON.stringify('' @ load_expression (js ''/tmp/tmp-1'') (js ''b.vue'') @ js '')'')),
      [DirSync (js ''/tmp/tmp-1''),
       WriteFileSync (js ''/tmp/tmp-1/__vue-i18n__en__b.vue'')
         (json_text sample_host (Obj (fmupd (js ''en'') (Obj fmempty) fmempty)) (IndentNum 2))])"
proof -
  let ?attrs = "Map.empty(js ''lazy'' \<mapsto> QStr (js ''false''))"
  have m0: "generateCode_messages sample_host (Text (js ''{}'')) Map.empty = Inr (Obj fmempty)"
    by (intro messages_of_plain_text sample_JSON_parse) simp_all
  have m1: "generateCode_messages sample_host (Text (js ''{}'')) ?attrs = Inr (Obj fmempty)"
    using attr_names by (intro messages_of_plain_text sample_JSON_parse) simp_all
  have v: "js ''false'' \<noteq> []"
    by (simp add: js_def)
  show ?thesis
    using lazy_path_iff_truthy [OF m0, of "js ''/a/b.vue''"
        "\<lparr>locales = Some [js ''en''], fallbackLocale = Some (js ''en'')\<rparr>" "[]"]
      lazy_path_iff_truthy [OF m1, of "js ''/a/b.vue''"
        "\<lparr>locales = Some [js ''en''], fallbackLocale = Some (js ''en'')\<rparr>" "[]"]
      v
    by (simp add: sample_lazy sample_eager)
qed

text \<open>
  The claim C8 as the specification states it, that the presence of the parameter decides,
  fails on the query \<^verbatim>\<open>?vue&lazy\<close>: the parameter is present, \<^verbatim>\<open>querystring.parse\<close> gives it
  the empty string, and \<^verbatim>\<open>generateCode\<close> returns the eager module text and adds no event,
  so that \<^verbatim>\<open>loader\<close> only marks the result cacheable and calls back with that text; the
  lazy path on the same inputs returns the load expression and starts by allocating a
  directory.
\<close>

theorem lazy_presence_counterexample:
  "querystring_parse sample_host (js ''?vue&lazy'') (js ''lazy'') = Some (QStr [])
   \<and> generateCode sample_host (Text (js ''{}'')) (js ''/a/b.vue'')
       (querystring_parse sample_host (js ''?vue&lazy''))
       \<lparr>locales = Some [js ''en''], fallbackLocale = Some (js ''en'')\<rparr> []
     = (Inr (module_text
              (single_quoted (cleanMessagesString (json_text sample_host (Obj fmempty) NoIndent)))),
        [])
   \<and> loader sample_host
       \<lparr>this_version = Some 2, this_cacheable = True, this_resourcePath = js ''/a/b.vue'',
        this_resourceQuery = js ''?vue&lazy'',
        this_query = \<lparr>locales = Some [js ''en''], fallbackLocale = Some (js ''en'')\<rparr>\<rparr>
       (Text (js ''{}'')) None []
     = [Cacheable,
        Callback (Inr (module_text
                        (single_quoted
                           (cleanMessagesString (json_text sample_host (Obj fmempty) NoIndent))),
                       None))]
   \<and> fst (stringifyLazyMessages sample_host (js ''/a/b.vue'') (Obj fmempty)
            \<lparr>locales = Some [js ''en''], fallbackLocale = Some (js ''en'')\<rparr> [])
     = Inr (js ''JSON.stringify('' @ load_expression (js ''/tmp/tmp-1'') (js ''b.vue'') @ js '')'')
   \<and> hd (snd (stringifyLazyMessages sample_host (js ''/a/b.vue'') (Obj fmempty)
            \<lparr>locales = Some [js ''en''], fallbackLocale = Some (js ''en'')\<rparr> []))
     = DirSync (js ''/tmp/tmp-1'')"
proof -
  let ?attrs = "Map.empty(js ''?vue'' \<mapsto> QStr [], js ''lazy'' \<mapsto> QStr [])"
  let ?options = "\<lparr>locales = Some [js ''en''], fallbackLocale = Some (js ''en'')\<rparr>"
  have m: "generateCode_messages sample_host (Text (js ''{}'')) ?attrs = Inr (Obj fmempty)"
    using attr_names by (intro messages_of_plain_text sample_JSON_parse) simp_all
  have e: "\<not> truthy_attr (?attrs (js ''lazy''))"
    by (simp add: truthy_attr_def)
  have g: "generateCode sample_host (Text (js ''{}'')) (js ''/a/b.vue'') ?attrs ?options t
           = (map_sum id module_text (stringifyMessages sample_host (Obj fmempty)), t)" for t
    by (rule generateCode_eager [OF m e])
  have p: "?attrs (js ''lazy'') = Some (QStr [])"
    by simp
  have l: "loader sample_host
       \<lparr>this_version = Some 2, this_cacheable = True, this_resourcePath = js ''/a/b.vue'',
        this_resourceQuery = js ''?vue&lazy'', this_query = ?options\<rparr>
       (Text (js ''{}'')) None []
     = [Cacheable,
        Callback (Inr (module_text
                        (single_quoted
                           (cleanMessagesString (json_text sample_host (Obj fmempty) NoIndent))),
                       None))]"
    by (simp add: loader_def sample_query(2) g sample_eager)
  show ?thesis
    unfolding sample_query(2) g sample_lazy sample_eager l using p by simp
qed

section \<open>Properties of the emitter\<close>

text \<open>
  Claim C9. The module text has one shape: a fixed text up to \<^verbatim>\<open>push(\<close>, the entry as it is,
  and a fixed text after it; and whenever \<^verbatim>\<open>generateCode\<close> succeeds its result is that text
  around the string of the path taken, the messages literal or the lazy load expression.
  The function the text defines leaves \<^verbatim>\<open>__i18n\<close> an array, the former one (or the empty
  one when there was none) with the entry appended, and \<^verbatim>\<open>_Ctor\<close> absent; applied twice it
  appends both entries, in order, so the array grows by two.
\<close>

theorem emitter_shape_and_push:
  "module_text entry =
     js (''module.exports = function (Component) {\<newline>'' @
         ''  Component.options.__i18n = Component.options.__i18n || []\<newline>'' @
         ''  Component.options.__i18n.push('')
     @ entry
     @ js ('')\<newline>'' @ ''  delete Component.options._Ctor\<newline>'' @ ''}\<newline>'')
   \<and> (generateCode h src path attrs options t = (Inr code, t') \<longrightarrow>
        (\<exists>messages e. generateCode_messages h src attrs = Inr messages
            \<and> code = module_text e
            \<and> (stringifyMessages h messages = Inr e \<and> t' = t
                \<or> stringifyLazyMessages h path messages options t = (Inr e, t'))))
   \<and> i18n (emitted_function e1 opts) = Some ((case i18n opts of None \<Rightarrow> [] | Some xs \<Rightarrow> xs) @ [e1])
   \<and> Ctor (emitted_function e1 opts) = None
   \<and> i18n (emitted_function e2 (emitted_function e1 opts))
       = Some ((case i18n opts of None \<Rightarrow> [] | Some xs \<Rightarrow> xs) @ [e1, e2])
   \<and> (\<forall>xs ys. i18n opts = Some xs \<and> i18n (emitted_function e2 (emitted_function e1 opts)) = Some ys
        \<longrightarrow> length ys = length xs + 2)"
proof -
  have shape: "module_text entry =
     js (''module.exports = function (Component) {\<newline>'' @
         ''  Component.options.__i18n = Component.options.__i18n || []\<newline>'' @
         ''  Component.options.__i18n.push('')
     @ entry
     @ js ('')\<newline>'' @ ''  delete Component.options._Ctor\<newline>'' @ ''}\<newline>'')"
    by (simp add: module_text_def js_def)
  have result: "\<exists>messages e. generateCode_messages h src attrs = Inr messages
            \<and> code = module_text e
            \<and> (stringifyMessages h messages = Inr e \<and> t' = t
                \<or> stringifyLazyMessages h path messages options t = (Inr e, t'))"
    if "generateCode h src path attrs options t = (Inr code, t')"
    using that
    by (auto simp: generateCode_def split: sum.splits if_splits prod.splits)
  have once: "i18n (emitted_function x o') = Some ((case i18n o' of None \<Rightarrow> [] | Some xs \<Rightarrow> xs) @ [x])"
    for x :: 'a and o' :: "('a, 'b) component_options"
    by (simp add: emitted_function_def Let_def)
  have twice: "i18n (emitted_function e2 (emitted_function e1 opts))
       = Some ((case i18n opts of None \<Rightarrow> [] | Some xs \<Rightarrow> xs) @ [e1, e2])"
    by (simp add: once)
  have ctor: "Ctor (emitted_function e1 opts) = None"
    by (simp add: emitted_function_def Let_def)
  show ?thesis
    using shape result once [of e1 opts] twice ctor
    by auto
qed

theorem emitter_shape_and_push_witness:
  "generateCode sample_host (Text (js ''{}'')) (js ''/a/b.vue'') Map.empty
     \<lparr>locales = None, fallbackLocale = None\<rparr> []
   = (Inr (module_text
            (single_quoted (cleanMessagesString (json_text sample_host (Obj fmempty) NoIndent)))),
      [])
   \<and> i18n (emitted_function (js ''b'') (emitted_function (js ''a'')
             \<lparr>i18n = Some [js ''z''], Ctor = Some True\<rparr>))
     = Some [js ''z'', js ''a'', js ''b'']
   \<and> length [js ''z'', js ''a'', js ''b''] = length [js ''z''] + 2"
proof -
  let ?opts = "\<lparr>i18n = Some [js ''z''], Ctor = Some True\<rparr>"
  have m0: "generateCode_messages sample_host (Text (js ''{}'')) Map.empty = Inr (Obj fmempty)"
    by (intro messages_of_plain_text sample_JSON_parse) simp_all
  have g: "generateCode sample_host (Text (js ''{}'')) (js ''/a/b.vue'') Map.empty
             \<lparr>locales = None, fallbackLocale = None\<rparr> []
           = (Inr (module_text
                (single_quoted (cleanMessagesString (json_text sample_host (Obj fmempty) NoIndent)))),
              [])"
    using generateCode_eager [OF m0, of "js ''/a/b.vue''" "\<lparr>locales = None, fallbackLocale = None\<rparr>" "[]"]
    by (simp add: truthy_attr_def sample_eager)
  show ?thesis
    using emitter_shape_and_push [of "js ''a''" sample_host "Text (js ''{}'')" "js ''/a/b.vue''"
        Map.empty "\<lparr>locales = None, fallbackLocale = None\<rparr>" "[]"
        "module_text (single_quoted (cleanMessagesString (json_text sample_host (Obj fmempty) NoIndent)))"
        "[]" "js ''a''" ?opts "js ''b''"]
      g
    by simp
qed

section \<open>The wrapper at the key that names the prototype\<close>

lemma sample_document:
  "JSON_parse sample_host (js ''{\"hello\":\"hi\"}'')
     = Inr (Obj (fmupd (js ''hello'') (Str (js ''hi'')) fmempty))"
  by (simp add: sample_host_def js_def)

lemma sample_text_of_inheriting:
  "stringifyMessages sample_host (Inherits p) = Inr (single_quoted (js ''{}''))"
  by (simp add: stringifyMessages_def JSON_stringify_def sample_host_def cleanMessagesString_def
      replace_all_def js_def)

text \<open>
  Claim C6. The claim holds of every non-empty locale but one (\<open>wraps_under_ordinary_key\<close>,
  \<open>no_locale_as_is\<close>). At the locale \<^verbatim>\<open>__proto__\<close> the code does not produce the wrapper.
  For the resource \<^verbatim>\<open>{"hello":"hi"}\<close>: under the locale \<^verbatim>\<open>en\<close> the message table is the
  object with the key \<^verbatim>\<open>en\<close> over the parsed value, as the claim says; under the locale
  \<^verbatim>\<open>__proto__\<close> it is an object without own properties, which has the parsed value as its
  prototype and is not the object with the key \<^verbatim>\<open>__proto__\<close>, and \<^verbatim>\<open>generateCode\<close>
  emits the module that pushes the literal \<^verbatim>\<open>'{}'\<close>. The object literal of the lazy path
  (line 125), which wraps under its computed key without \<^verbatim>\<open>Object.assign\<close>, does keep
  \<^verbatim>\<open>__proto__\<close> as a key.
\<close>

theorem locale_proto_is_not_wrapped:
  "generateCode_messages sample_host (Text (js ''{\"hello\":\"hi\"}''))
     (Map.empty(js ''locale'' \<mapsto> QStr (js ''en'')))
   = Inr (Obj (fmupd (js ''en'') (Obj (fmupd (js ''hello'') (Str (js ''hi'')) fmempty)) fmempty))
   \<and> generateCode_messages sample_host (Text (js ''{\"hello\":\"hi\"}''))
     (Map.empty(js ''locale'' \<mapsto> QStr (js ''__proto__'')))
   = Inr (Inherits (Obj (fmupd (js ''hello'') (Str (js ''hi'')) fmempty)))
   \<and> own_props (Inherits (Obj (fmupd (js ''hello'') (Str (js ''hi'')) fmempty))) = fmempty
   \<and> Inherits (Obj (fmupd (js ''hello'') (Str (js ''hi'')) fmempty))
     \<noteq> Obj (fmupd (js ''__proto__'') (Obj (fmupd (js ''hello'') (Str (js ''hi'')) fmempty)) fmempty)
   \<and> generateCode sample_host (Text (js ''{\"hello\":\"hi\"}'')) (js ''/a/b.vue'')
       (Map.empty(js ''locale'' \<mapsto> QStr (js ''__proto__'')))
       \<lparr>locales = None, fallbackLocale = None\<rparr> []
     = (Inr (module_text (single_quoted (js ''{}''))), [])
   \<and> localeSpecificMessages sample_host (Obj fmempty) (js ''en'') (js ''__proto__'')
     = Inr (fmupd (js ''__proto__'') (Obj fmempty) fmempty)"
proof -
  let ?doc = "js ''{\"hello\":\"hi\"}''"
  let ?parsed = "Obj (fmupd (js ''hello'') (Str (js ''hi'')) fmempty)"
  let ?en = "Map.empty(js ''locale'' \<mapsto> QStr (js ''en''))"
  let ?proto = "Map.empty(js ''locale'' \<mapsto> QStr (js ''__proto__''))"
  have names: "js ''en'' \<noteq> []" "js ''en'' \<noteq> js ''__proto__''" "js ''__proto__'' \<noteq> []"
    by (simp_all add: js_def)
  have c: "convert sample_host (Text ?doc) ((Map.empty(js ''locale'' \<mapsto> a)) (js ''lang''))
             = Inr (Some ?doc)" for a
    using attr_names by (simp add: convert_def source_text_def)
  have p: "JSON_parse sample_host (case Some ?doc of None \<Rightarrow> js ''undefined'' | Some s \<Rightarrow> s)
             = Inr ?parsed"
    by (simp add: sample_document)
  have en: "generateCode_messages sample_host (Text ?doc) ?en = Inr (Obj (fmupd (js ''en'') ?parsed fmempty))"
    using messages_parsed [of sample_host "Text ?doc" ?en "Some ?doc" ?parsed]
      c [of "QStr (js ''en'')"] p names
    by (simp add: Object_assign_one_def)
  have proto: "generateCode_messages sample_host (Text ?doc) ?proto = Inr (Inherits ?parsed)"
    using messages_parsed [of sample_host "Text ?doc" ?proto "Some ?doc" ?parsed]
      c [of "QStr (js ''__proto__'')"] p names
    by (simp add: Object_assign_one_def)
  have lazy: "\<not> truthy_attr (?proto (js ''lazy''))"
    using attr_names by (simp add: truthy_attr_def)
  have code: "generateCode sample_host (Text ?doc) (js ''/a/b.vue'') ?proto
                \<lparr>locales = None, fallbackLocale = None\<rparr> []
              = (map_sum id module_text (stringifyMessages sample_host (Inherits ?parsed)), [])"
    by (rule generateCode_eager [OF proto lazy])
  have sibling: "localeSpecificMessages sample_host (Obj fmempty) (js ''en'') (js ''__proto__'')
                   = Inr (fmupd (js ''__proto__'') (Obj fmempty) fmempty)"
    by (simp add: localeSpecificMessages_table table_entry_def)
  show ?thesis
    unfolding en proto code sample_text_of_inheriting sibling
    by (simp add: own_props_def)
qed

end
